theory Spec2Isabelle
  imports Complex_Main
begin

text \<open>
  The investment controller of the portfolio application
  (\<open>src/controllers/investmentController.js\<close>), with the \<open>Investment\<close> model it writes
  through: its operations as functions on an explicit database, each returning its
  response, the database it leaves and the order of what it did.
\<close>

section \<open>JavaScript numbers and values\<close>

text \<open>
  The investment controller computes with JavaScript numbers. A finite number is modelled
  by the rational it denotes (\<open>Num\<close>), so the arithmetic below is exact: the rounding
  error of IEEE-754 doubles is not part of the model, neither is the sign of zero. \<open>NaN\<close>
  and the two infinities (\<open>Inf True\<close> is \<open>+Infinity\<close>) are kept, because the controller
  reaches them through coercions and through division by zero.
\<close>

datatype jsnum = NaN | Inf bool | Num rat

text \<open>
  A value of the parsed request body: an absent key, \<open>null\<close>, a number or a string.
\<close>

datatype jsval = JUndefined | JNull | JNum jsnum | JStr string

fun js_neg :: "jsnum \<Rightarrow> jsnum" where
  "js_neg NaN = NaN"
| "js_neg (Inf s) = Inf (\<not> s)"
| "js_neg (Num a) = Num (- a)"

fun js_add :: "jsnum \<Rightarrow> jsnum \<Rightarrow> jsnum" where
  "js_add (Num a) (Num b) = Num (a + b)"
| "js_add (Inf s) (Inf t) = (if s = t then Inf s else NaN)"
| "js_add (Inf s) (Num b) = Inf s"
| "js_add (Num a) (Inf t) = Inf t"
| "js_add NaN y = NaN"
| "js_add x NaN = NaN"

definition js_sub :: "jsnum \<Rightarrow> jsnum \<Rightarrow> jsnum" where
  "js_sub x y = js_add x (js_neg y)"

fun js_mul :: "jsnum \<Rightarrow> jsnum \<Rightarrow> jsnum" where
  "js_mul (Num a) (Num b) = Num (a * b)"
| "js_mul (Inf s) (Inf t) = Inf (s = t)"
| "js_mul (Inf s) (Num b) = (if b = 0 then NaN else Inf (s = (0 < b)))"
| "js_mul (Num a) (Inf t) = (if a = 0 then NaN else Inf (t = (0 < a)))"
| "js_mul NaN y = NaN"
| "js_mul x NaN = NaN"

fun js_div :: "jsnum \<Rightarrow> jsnum \<Rightarrow> jsnum" where
  "js_div (Num a) (Num b) =
     (if b = 0 then (if a = 0 then NaN else Inf (0 < a)) else Num (a / b))"
| "js_div (Inf s) (Inf t) = NaN"
| "js_div (Inf s) (Num b) = Inf (s = (0 \<le> b))"
| "js_div (Num a) (Inf t) = Num 0"
| "js_div NaN y = NaN"
| "js_div x NaN = NaN"

text \<open>Comparisons: every comparison with \<open>NaN\<close> is false.\<close>

fun js_lt :: "jsnum \<Rightarrow> jsnum \<Rightarrow> bool" where
  "js_lt (Num a) (Num b) = (a < b)"
| "js_lt (Inf s) (Inf t) = (\<not> s \<and> t)"
| "js_lt (Inf s) (Num b) = (\<not> s)"
| "js_lt (Num a) (Inf t) = t"
| "js_lt NaN y = False"
| "js_lt x NaN = False"

fun js_le :: "jsnum \<Rightarrow> jsnum \<Rightarrow> bool" where
  "js_le (Num a) (Num b) = (a \<le> b)"
| "js_le (Inf s) (Inf t) = (\<not> s \<or> t)"
| "js_le (Inf s) (Num b) = (\<not> s)"
| "js_le (Num a) (Inf t) = t"
| "js_le NaN y = False"
| "js_le x NaN = False"

text \<open>
  \<open>parseFloat(x.toFixed(2))\<close> on a number: \<open>toFixed\<close> rounds the absolute value to the
  nearest hundredth, a tie going up, and keeps the sign; from \<open>10^21\<close> on it prints the
  number in exponent notation, unrounded.
\<close>

definition toFixed2 :: "rat \<Rightarrow> rat" where
  "toFixed2 x =
     (if 10 ^ 21 \<le> \<bar>x\<bar> then x
      else if x < 0 then - (of_int \<lfloor>\<bar>x\<bar> * 100 + 1 / 2\<rfloor> / 100)
      else of_int \<lfloor>\<bar>x\<bar> * 100 + 1 / 2\<rfloor> / 100)"

fun toFixed2_js :: "jsnum \<Rightarrow> jsnum" where
  "toFixed2_js (Num a) = Num (toFixed2 a)"
| "toFixed2_js x = x"

text \<open>\<open>!v\<close>: true of the falsy values.\<close>

fun js_not :: "jsval \<Rightarrow> bool" where
  "js_not JUndefined = True"
| "js_not JNull = True"
| "js_not (JNum NaN) = True"
| "js_not (JNum (Inf s)) = False"
| "js_not (JNum (Num a)) = (a = 0)"
| "js_not (JStr s) = (s = [])"

text \<open>
  \<open>ToNumber\<close>, the coercion behind \<open>quantity <= 0\<close> and \<open>price * quantity\<close>. On a string
  it is ECMAScript's StringToNumber, a function of the language and not of this
  repository: it is the parameter \<open>s2n\<close>, and whatever is proved holds for every such
  function.
\<close>

fun ToNumber :: "(string \<Rightarrow> jsnum) \<Rightarrow> jsval \<Rightarrow> jsnum" where
  "ToNumber s2n JUndefined = NaN"
| "ToNumber s2n JNull = Num 0"
| "ToNumber s2n (JNum n) = n"
| "ToNumber s2n (JStr s) = s2n s"

subsection \<open>parseInt\<close>

text \<open>
  \<open>parseInt(v)\<close> first converts \<open>v\<close> to a string. A number in the plain decimal
  notation gives its integer part. A number from \<open>10^21\<close> on, or a non-zero one below
  \<open>10^-6\<close>, is printed in exponent notation (\<open>1.5e+21\<close>, \<open>5e-7\<close>), of which \<open>parseInt\<close>
  reads the digits before the first other character: the first significant digit.
\<close>

fun leadingDigit :: "nat \<Rightarrow> nat" where
  "leadingDigit n = (if n < 10 then n else leadingDigit (n div 10))"

declare leadingDigit.simps [simp del]

function firstSignificant :: "rat \<Rightarrow> nat" where
  "firstSignificant x =
     (if x \<le> 0 \<or> 1 \<le> x then nat \<lfloor>x\<rfloor> else firstSignificant (10 * x))"
  by pat_completeness auto
termination
proof (relation "measure (\<lambda>x. nat \<lfloor>1 / x\<rfloor>)")
  show "wf (measure (\<lambda>x::rat. nat \<lfloor>1 / x\<rfloor>))" by simp
next
  fix x :: rat
  assume "\<not> (x \<le> 0 \<or> 1 \<le> x)"
  then have x: "0 < x" "x < 1" by auto
  define y where "y = 1 / x"
  have y: "1 \<le> y" using x by (simp add: y_def)
  have ten: "1 / (10 * x) = y / 10" by (simp add: y_def)
  have "y < of_int \<lfloor>y\<rfloor> + 1" by linarith
  moreover have "(1::rat) \<le> of_int \<lfloor>y\<rfloor>" using y by (simp add: le_floor_iff)
  ultimately have "y / 10 < of_int \<lfloor>y\<rfloor>" by linarith
  then have "\<lfloor>y / 10\<rfloor> < \<lfloor>y\<rfloor>" by (simp add: floor_less_iff)
  then have "\<lfloor>1 / (10 * x)\<rfloor> < \<lfloor>1 / x\<rfloor>" by (simp only: ten y_def)
  moreover have "1 \<le> 1 / x" using y by (simp only: y_def)
  ultimately show "(10 * x, x) \<in> measure (\<lambda>x. nat \<lfloor>1 / x\<rfloor>)" by simp
qed

declare firstSignificant.simps [simp del]

definition parseIntNum :: "rat \<Rightarrow> int" where
  "parseIntNum x =
     (let m = (if 10 ^ 21 \<le> \<bar>x\<bar> then int (leadingDigit (nat \<lfloor>\<bar>x\<bar>\<rfloor>))
               else if \<bar>x\<bar> < 1 / 10 ^ 6 then int (firstSignificant \<bar>x\<bar>)
               else \<lfloor>\<bar>x\<bar>\<rfloor>)
      in if x < 0 then - m else m)"

text \<open>
  On a string, \<open>parseInt\<close> skips leading white space, reads a sign, takes \<open>0x\<close> or \<open>0X\<close>
  as the mark of radix 16, and reads digits up to the first character that is none; no
  digit at all gives \<open>NaN\<close>, which is \<open>None\<close> here. The strings of the model are
  strings of ASCII characters: \<open>isWhiteSpace\<close> is the white space of the language among
  them.
\<close>

definition isWhiteSpace :: "char \<Rightarrow> bool" where
  "isWhiteSpace c = (c \<in> set [CHR 0x09, CHR 0x0A, CHR 0x0B, CHR 0x0C, CHR 0x0D, CHR 0x20])"

definition digit10 :: "char \<Rightarrow> nat option" where
  "digit10 = map_of (zip ''0123456789'' [0, 1, 2, 3, 4, 5, 6, 7, 8, 9])"

definition digit16 :: "char \<Rightarrow> nat option" where
  "digit16 = map_of (zip ''0123456789abcdefABCDEF''
     [0, 1, 2, 3, 4, 5, 6, 7, 8, 9, 10, 11, 12, 13, 14, 15, 10, 11, 12, 13, 14, 15])"

fun leadingDigits :: "(char \<Rightarrow> nat option) \<Rightarrow> string \<Rightarrow> nat list" where
  "leadingDigits dv [] = []"
| "leadingDigits dv (c # cs) =
     (case dv c of None \<Rightarrow> [] | Some k \<Rightarrow> k # leadingDigits dv cs)"

definition fromDigits :: "nat \<Rightarrow> nat list \<Rightarrow> nat" where
  "fromDigits r ds = foldl (\<lambda>a k. a * r + k) 0 ds"

definition stripSign :: "string \<Rightarrow> bool \<times> string" where
  "stripSign s =
     (case s of
        c # cs \<Rightarrow> if c = CHR ''-'' then (True, cs) else if c = CHR ''+'' then (False, cs)
                  else (False, s)
      | [] \<Rightarrow> (False, s))"

definition stripHexPrefix :: "string \<Rightarrow> bool \<times> string" where
  "stripHexPrefix s =
     (case s of
        c # x # cs \<Rightarrow> if c = CHR ''0'' \<and> (x = CHR ''x'' \<or> x = CHR ''X'') then (True, cs)
                      else (False, s)
      | _ \<Rightarrow> (False, s))"

definition parseIntStr :: "string \<Rightarrow> int option" where
  "parseIntStr s =
     (let (negative, s1) = stripSign (dropWhile isWhiteSpace s);
          (hex, s2) = stripHexPrefix s1;
          ds = leadingDigits (if hex then digit16 else digit10) s2;
          m = int (fromDigits (if hex then 16 else 10) ds)
      in if ds = [] then None else Some (if negative then - m else m))"

fun parseInt :: "jsval \<Rightarrow> int option" where
  "parseInt JUndefined = None"
| "parseInt JNull = None"
| "parseInt (JNum NaN) = None"
| "parseInt (JNum (Inf s)) = None"
| "parseInt (JNum (Num a)) = Some (parseIntNum a)"
| "parseInt (JStr s) = parseIntStr s"

text \<open>
  \<open>n + v\<close> for a number \<open>n\<close> that is an integer: concatenation of the two strings when
  \<open>v\<close> is a string, addition otherwise.
\<close>

fun digitsOf :: "nat \<Rightarrow> string" where
  "digitsOf n =
     (if n < 10 then [''0123456789'' ! n]
      else digitsOf (n div 10) @ [''0123456789'' ! (n mod 10)])"

declare digitsOf.simps [simp del]

definition intToString :: "int \<Rightarrow> string" where
  "intToString n = (if n < 0 then CHR ''-'' # digitsOf (nat (- n)) else digitsOf (nat n))"

fun js_plus_int :: "(string \<Rightarrow> jsnum) \<Rightarrow> int \<Rightarrow> jsval \<Rightarrow> jsval" where
  "js_plus_int s2n n (JStr s) = JStr (intToString n @ s)"
| "js_plus_int s2n n v = JNum (js_add (Num (of_int n)) (ToNumber s2n v))"

definition toUpperChar :: "char \<Rightarrow> char" where
  "toUpperChar c =
     (case map_of (zip ''abcdefghijklmnopqrstuvwxyz'' ''ABCDEFGHIJKLMNOPQRSTUVWXYZ'') c of
        Some u \<Rightarrow> u
      | None \<Rightarrow> c)"

definition toUpperCase :: "string \<Rightarrow> string" where
  "toUpperCase s = map toUpperChar s"

section \<open>The store\<close>

text \<open>
  What the price oracle \<open>financeAPI.getStockPrice\<close> resolves to: an object with a
  numeric \<open>price\<close> and a \<open>shortName\<close>, or \<open>null\<close> (\<open>None\<close>). The oracle itself is outside the
  repository's sources; every operation takes it as a parameter.
\<close>

record stockData =
  stock_price :: rat
  stock_shortName :: "string option"

type_synonym financeAPI = "string \<Rightarrow> stockData option"

text \<open>
  A row of the \<open>investments\<close> table, with the fields of the \<open>Investment\<close> model, read
  through the model's getters: \<open>quantity\<close> is an integer, the three \<open>DECIMAL\<close> columns
  are numbers. The pair \<open>(userId, symbol)\<close> is the table's unique index.
\<close>

record investment =
  inv_id :: nat
  inv_userId :: nat
  inv_symbol :: string
  inv_companyName :: "string option"
  inv_quantity :: int
  inv_purchasePrice :: rat
  inv_currentPrice :: rat
  inv_totalInvested :: rat

text \<open>
  A record of the transaction log, with the fields the controller passes to
  \<open>Transaction.create\<close>, as it passes them; the \<open>Transaction\<close> model is missing from the
  sources, and the log only ever grows.
\<close>

datatype side = BUY | SELL

record txn =
  tx_userId :: nat
  tx_symbol :: string
  tx_transactionType :: side
  tx_quantity :: jsval
  tx_price :: rat
  tx_totalAmount :: jsnum

text \<open>
  The database: the cash balance of each user (\<open>None\<close> where no such user exists), the
  investment rows, the transaction log and the next auto-increment id of \<open>investments\<close>.
  The rounding and the range limits that the database applies to a column on its own
  are not modelled: a row holds what the controller wrote through the model's setters.
\<close>

record db =
  db_users :: "nat \<Rightarrow> rat option"
  db_investments :: "investment list"
  db_transactions :: "txn list"
  db_nextId :: nat

text \<open>
  The setters of the \<open>Investment\<close> model: \<open>parseInt(value) || 0\<close> for \<open>quantity\<close>,
  \<open>parseFloat(value) || 0\<close> for the \<open>DECIMAL\<close> fields.
\<close>

definition setQuantity :: "jsval \<Rightarrow> int" where
  "setQuantity v = (case parseInt v of None \<Rightarrow> 0 | Some n \<Rightarrow> n)"

fun setDecimal :: "jsnum \<Rightarrow> jsnum" where
  "setDecimal NaN = Num 0"
| "setDecimal x = x"

text \<open>
  Modelled from the spec: the \<open>User\<close> model is missing from the sources. The spec's
  account holds \<open>cashBalance\<close> as a decimal, so \<open>user.update\<close> stores a finite number as
  it is, and the write of \<open>NaN\<close> or of an infinity fails (\<open>None\<close>), which the controllers'
  \<open>catch\<close> turns into a rollback.
\<close>

fun saveCashBalance :: "jsnum \<Rightarrow> rat option" where
  "saveCashBalance (Num c) = Some c"
| "saveCashBalance x = None"

text \<open>
  Saving a row. An infinity has no \<open>DECIMAL\<close> representation: the statement fails, which
  the controllers' \<open>catch\<close> turns into a rollback (the spec's StorageFailure). \<open>None\<close> is
  that failure.
\<close>

definition saveInvestment ::
  "investment \<Rightarrow> jsval \<Rightarrow> jsnum \<Rightarrow> jsnum \<Rightarrow> jsnum \<Rightarrow> investment option" where
  "saveInvestment row q pp cp ti =
     (case (setDecimal pp, setDecimal cp, setDecimal ti) of
        (Num a, Num b, Num c) \<Rightarrow>
          Some (row\<lparr>inv_quantity := setQuantity q, inv_purchasePrice := a,
                    inv_currentPrice := b, inv_totalInvested := c\<rparr>)
      | _ \<Rightarrow> None)"

definition updateRow :: "investment \<Rightarrow> investment list \<Rightarrow> investment list" where
  "updateRow r rows = map (\<lambda>i. if inv_id i = inv_id r then r else i) rows"

definition destroyRow :: "investment \<Rightarrow> investment list \<Rightarrow> investment list" where
  "destroyRow r rows = filter (\<lambda>i. inv_id i \<noteq> inv_id r) rows"

text \<open>\<open>a || b\<close> on optional strings.\<close>

definition js_or :: "string option \<Rightarrow> string option \<Rightarrow> string option" where
  "js_or a b = (case a of Some s \<Rightarrow> if s \<noteq> [] then a else b | None \<Rightarrow> b)"

section \<open>Replies and the trace of an operation\<close>

text \<open>
  The failures of the controller, named as the spec names them. \<open>InsufficientFunds\<close>
  carries what the response reports: the balance and the required amount, each if
  present. \<open>InsufficientShares\<close> carries the requested and the held quantity.
  \<open>ServerError\<close> is the \<open>catch\<close> block's status 500.
\<close>

datatype error =
    InvalidInput
  | PricingUnavailable
  | InvalidPrice
  | UserNotFound
  | InsufficientFunds "rat option" "jsnum option"
  | PositionNotFound
  | InsufficientShares int int
  | ServerError

record transactionDetails =
  td_symbol :: string
  td_quantity :: jsval
  td_pricePerShare :: rat
  td_totalCost :: jsnum

record saleDetails =
  sale_symbol :: string
  sale_quantitySold :: int
  sale_pricePerShare :: rat
  sale_totalReceived :: rat
  sale_profitLoss :: rat
  sale_profitLossPercent :: rat

text \<open>
  A row as \<open>getAllInvestments\<close> and \<open>getInvestmentById\<close> return it: the row with the
  values computed from the current price.
\<close>

record investmentView =
  view_investment :: investment
  view_currentValue :: rat
  view_gainLoss :: rat
  view_gainLossPercent :: rat

text \<open>
  \<open>Failed status e\<close>; \<open>Bought status investment remainingCash details\<close>;
  \<open>Sold details newCashBalance remainingShares\<close>; \<open>Deleted\<close>; \<open>Listed rows\<close>;
  \<open>Fetched row\<close>; \<open>CashAdded newBalance addedAmount\<close>.
\<close>

datatype reply =
    Failed nat error
  | Bought nat investment rat transactionDetails
  | Sold saleDetails rat int
  | Deleted
  | Listed "investmentView list"
  | Fetched investmentView
  | CashAdded rat jsnum

text \<open>
  What an operation does to the outside, in order. \<open>FindUser lock\<close> and
  \<open>FindInvestment lock\<close> are the reads of a row, \<open>lock\<close> telling whether the read asks
  for the row lock (\<open>lock: true\<close>).
\<close>

datatype event =
    TxBegin
  | OracleCall string
  | FindUser bool
  | FindInvestment bool
  | InvestmentWrite
  | InvestmentDestroy
  | UserWrite
  | TransactionWrite
  | Commit
  | Rollback

section \<open>The operations\<close>

text \<open>
  Each operation returns its reply, the database after it and its trace. A failed
  operation rolls its transaction back: the database is the one it started from. The
  requesting user is \<open>req.user.id\<close>; of the request body, \<open>symbol\<close> is a string (the empty
  one included) and \<open>quantity\<close> any value. \<open>toUpperCase\<close> covers the letters of ASCII.
\<close>

definition createInvestment ::
  "(string \<Rightarrow> jsnum) \<Rightarrow> financeAPI \<Rightarrow> db \<Rightarrow> nat \<Rightarrow> string \<Rightarrow> jsval
     \<Rightarrow> reply \<times> db \<times> event list" where
  "createInvestment s2n getStockPrice d userId symbol quantity =
     (if symbol = [] \<or> js_not quantity \<or> js_le (ToNumber s2n quantity) (Num 0)
      then (Failed 400 InvalidInput, d, [TxBegin, Rollback])
      else
       (case getStockPrice (toUpperCase symbol) of
          None \<Rightarrow>
            (Failed 400 PricingUnavailable, d,
             [TxBegin, OracleCall (toUpperCase symbol), Rollback])
        | Some stockData \<Rightarrow>
            (let currentPrice = stock_price stockData;
                 totalCost = js_mul (Num currentPrice) (ToNumber s2n quantity);
                 t1 = [TxBegin, OracleCall (toUpperCase symbol), FindUser False]
             in
             (case db_users d userId of
                None \<Rightarrow> (Failed 404 UserNotFound, d, t1 @ [Rollback])
              | Some cashBalance \<Rightarrow>
                  (if js_lt (Num cashBalance) totalCost
                   then (Failed 400 (InsufficientFunds (Some (toFixed2 cashBalance))
                                       (Some (toFixed2_js totalCost))), d, t1 @ [Rollback])
                   else
                    (let t2 = t1 @ [FindInvestment False];
                         saved =
                           (case find (\<lambda>i. inv_userId i = userId \<and>
                                            inv_symbol i = toUpperCase symbol)
                                   (db_investments d) of
                              Some investment \<Rightarrow>
                                (let newTotalQuantity =
                                       js_plus_int s2n (inv_quantity investment) quantity;
                                     newTotalInvested =
                                       js_add (Num (inv_totalInvested investment)) totalCost;
                                     newAveragePrice =
                                       js_div newTotalInvested (ToNumber s2n newTotalQuantity)
                                 in map_option
                                      (\<lambda>r. (r, updateRow r (db_investments d), db_nextId d))
                                      (saveInvestment
                                         (investment\<lparr>inv_companyName :=
                                            js_or (stock_shortName stockData)
                                                  (inv_companyName investment)\<rparr>)
                                         newTotalQuantity newAveragePrice (Num currentPrice)
                                         newTotalInvested))
                            | None \<Rightarrow>
                                map_option
                                  (\<lambda>r. (r, db_investments d @ [r], Suc (db_nextId d)))
                                  (saveInvestment
                                     \<lparr>inv_id = db_nextId d, inv_userId = userId,
                                      inv_symbol = toUpperCase symbol,
                                      inv_companyName = stock_shortName stockData,
                                      inv_quantity = 0, inv_purchasePrice = 0,
                                      inv_currentPrice = 0, inv_totalInvested = 0\<rparr>
                                     quantity (Num currentPrice) (Num currentPrice) totalCost))
                     in
                     (case saved of
                        None \<Rightarrow> (Failed 500 ServerError, d, t2 @ [Rollback])
                      | Some (investment, rows, nid) \<Rightarrow>
                          (case saveCashBalance (js_sub (Num cashBalance) totalCost) of
                             Some newCashBalance \<Rightarrow>
                               (Bought 201 investment newCashBalance
                                  \<lparr>td_symbol = toUpperCase symbol, td_quantity = quantity,
                                   td_pricePerShare = currentPrice, td_totalCost = totalCost\<rparr>,
                                d\<lparr>db_users := (db_users d)(userId \<mapsto> newCashBalance),
                                  db_investments := rows,
                                  db_transactions := db_transactions d @
                                    [\<lparr>tx_userId = userId, tx_symbol = toUpperCase symbol,
                                      tx_transactionType = BUY, tx_quantity = quantity,
                                      tx_price = currentPrice, tx_totalAmount = totalCost\<rparr>],
                                  db_nextId := nid\<rparr>,
                                t2 @ [InvestmentWrite, UserWrite, TransactionWrite, Commit])
                           | None \<Rightarrow>
                               (Failed 500 ServerError, d, t2 @ [InvestmentWrite, Rollback])))))))))"

text \<open>
  \<open>buyInvestment\<close>, the second buy entry point. It passes the symbol on as it came.
\<close>

definition buyInvestment ::
  "financeAPI \<Rightarrow> db \<Rightarrow> nat \<Rightarrow> string \<Rightarrow> jsval \<Rightarrow> reply \<times> db \<times> event list" where
  "buyInvestment getStockPrice d userId symbol quantity =
     (case parseInt quantity of
        None \<Rightarrow> (Failed 400 InvalidInput, d, [TxBegin, Rollback])
      | Some purchaseQuantity \<Rightarrow>
          (if purchaseQuantity \<le> 0 then (Failed 400 InvalidInput, d, [TxBegin, Rollback])
           else
            (case getStockPrice symbol of
               None \<Rightarrow>
                 (Failed 400 PricingUnavailable, d, [TxBegin, OracleCall symbol, Rollback])
             | Some stockData \<Rightarrow>
                 (let stockPrice = stock_price stockData in
                  if stockPrice \<le> 0
                  then (Failed 400 InvalidPrice, d, [TxBegin, OracleCall symbol, Rollback])
                  else
                   (let totalCost = toFixed2 (stockPrice * of_int purchaseQuantity);
                        t1 = [TxBegin, OracleCall symbol, FindUser True]
                    in
                    (case db_users d userId of
                       None \<Rightarrow> (Failed 500 ServerError, d, t1 @ [Rollback])
                     | Some userCashBalance \<Rightarrow>
                         (if userCashBalance < totalCost
                          then (Failed 400 (InsufficientFunds (Some userCashBalance) None), d,
                                t1 @ [Rollback])
                          else
                           (let t2 = t1 @ [FindInvestment True];
                                saved =
                                  (case find (\<lambda>i. inv_userId i = userId \<and> inv_symbol i = symbol)
                                          (db_investments d) of
                                     Some investment \<Rightarrow>
                                       (let existingTotalInvested = inv_totalInvested investment;
                                            existingQuantity =
                                              parseIntNum (of_int (inv_quantity investment));
                                            newTotalInvested =
                                              toFixed2 (existingTotalInvested + totalCost);
                                            newQuantity = existingQuantity + purchaseQuantity;
                                            newAveragePrice =
                                              toFixed2_js (js_div (Num newTotalInvested)
                                                             (Num (of_int newQuantity)))
                                        in map_option
                                             (\<lambda>r. (r, updateRow r (db_investments d), db_nextId d))
                                             (saveInvestment investment
                                                (JNum (Num (of_int newQuantity))) newAveragePrice
                                                (Num (toFixed2 stockPrice))
                                                (Num newTotalInvested)))
                                   | None \<Rightarrow>
                                       map_option
                                         (\<lambda>r. (r, db_investments d @ [r], Suc (db_nextId d)))
                                         (saveInvestment
                                            \<lparr>inv_id = db_nextId d, inv_userId = userId,
                                             inv_symbol = symbol,
                                             inv_companyName =
                                               js_or (stock_shortName stockData)
                                                     (Some (symbol @ '' Inc.'')),
                                             inv_quantity = 0, inv_purchasePrice = 0,
                                             inv_currentPrice = 0, inv_totalInvested = 0\<rparr>
                                            (JNum (Num (of_int purchaseQuantity)))
                                            (Num (toFixed2 stockPrice))
                                            (Num (toFixed2 stockPrice)) (Num totalCost)));
                                newCashBalance = toFixed2 (userCashBalance - totalCost)
                            in
                            (case saved of
                               None \<Rightarrow> (Failed 500 ServerError, d, t2 @ [Rollback])
                             | Some (investment, rows, nid) \<Rightarrow>
                                 (Bought 200 investment newCashBalance
                                    \<lparr>td_symbol = symbol,
                                     td_quantity = JNum (Num (of_int purchaseQuantity)),
                                     td_pricePerShare = stockPrice,
                                     td_totalCost = Num totalCost\<rparr>,
                                  d\<lparr>db_users := (db_users d)(userId \<mapsto> newCashBalance),
                                    db_investments := rows,
                                    db_transactions := db_transactions d @
                                      [\<lparr>tx_userId = userId, tx_symbol = symbol,
                                        tx_transactionType = BUY,
                                        tx_quantity = JNum (Num (of_int purchaseQuantity)),
                                        tx_price = toFixed2 stockPrice,
                                        tx_totalAmount = Num totalCost\<rparr>],
                                    db_nextId := nid\<rparr>,
                                  t2 @ [InvestmentWrite, UserWrite, TransactionWrite,
                                        Commit]))))))))))"

text \<open>
  \<open>sellInvestment\<close>: the position is read, with its row lock, before the oracle is
  asked; a \<open>null\<close> from the oracle makes the sale use the row's \<open>currentPrice\<close>.
\<close>

definition sellInvestment ::
  "financeAPI \<Rightarrow> db \<Rightarrow> nat \<Rightarrow> nat \<Rightarrow> jsval \<Rightarrow> reply \<times> db \<times> event list" where
  "sellInvestment getStockPrice d userId id' quantity =
     (case parseInt quantity of
        None \<Rightarrow> (Failed 400 InvalidInput, d, [TxBegin, Rollback])
      | Some sellQuantity \<Rightarrow>
          (if sellQuantity = 0 \<or> sellQuantity \<le> 0
           then (Failed 400 InvalidInput, d, [TxBegin, Rollback])
           else
            (case find (\<lambda>i. inv_id i = id' \<and> inv_userId i = userId) (db_investments d) of
               None \<Rightarrow>
                 (Failed 404 PositionNotFound, d, [TxBegin, FindInvestment True, Rollback])
             | Some investment \<Rightarrow>
                 (let investmentQuantity = parseIntNum (of_int (inv_quantity investment)) in
                  if sellQuantity > investmentQuantity
                  then (Failed 400 (InsufficientShares sellQuantity investmentQuantity), d,
                        [TxBegin, FindInvestment True, Rollback])
                  else
                   (let currentPrice =
                          (case getStockPrice (inv_symbol investment) of
                             Some currentStockData \<Rightarrow> toFixed2 (stock_price currentStockData)
                           | None \<Rightarrow> inv_currentPrice investment);
                        saleValue = toFixed2 (currentPrice * of_int sellQuantity);
                        totalInvested = inv_totalInvested investment;
                        proportionalInvested =
                          toFixed2 ((totalInvested / of_int investmentQuantity)
                                    * of_int sellQuantity);
                        profitLoss = toFixed2 (saleValue - proportionalInvested);
                        profitLossPercent =
                          (if proportionalInvested > 0
                           then toFixed2 ((profitLoss / proportionalInvested) * 100) else 0);
                        t1 = [TxBegin, FindInvestment True,
                              OracleCall (inv_symbol investment), FindUser True]
                    in
                    (case db_users d userId of
                       None \<Rightarrow> (Failed 500 ServerError, d, t1 @ [Rollback])
                     | Some currentCashBalance \<Rightarrow>
                         (let newCashBalance = toFixed2 (currentCashBalance + saleValue);
                              remainingQuantity = investmentQuantity - sellQuantity;
                              remainingTotalInvested =
                                toFixed2 (totalInvested - proportionalInvested);
                              newAveragePrice =
                                (if remainingQuantity > 0
                                 then toFixed2 (remainingTotalInvested / of_int remainingQuantity)
                                 else inv_purchasePrice investment);
                              rows =
                                (if sellQuantity = investmentQuantity
                                 then destroyRow investment (db_investments d)
                                 else updateRow
                                        (investment\<lparr>inv_quantity :=
                                             setQuantity (JNum (Num (of_int remainingQuantity))),
                                           inv_totalInvested := remainingTotalInvested,
                                           inv_purchasePrice := newAveragePrice,
                                           inv_currentPrice := currentPrice\<rparr>)
                                        (db_investments d))
                          in
                          (Sold \<lparr>sale_symbol = inv_symbol investment,
                                 sale_quantitySold = sellQuantity,
                                 sale_pricePerShare = currentPrice,
                                 sale_totalReceived = saleValue,
                                 sale_profitLoss = profitLoss,
                                 sale_profitLossPercent = profitLossPercent\<rparr>
                             newCashBalance
                             (if sellQuantity = investmentQuantity then 0
                              else investmentQuantity - sellQuantity),
                           d\<lparr>db_users := (db_users d)(userId \<mapsto> newCashBalance),
                             db_investments := rows,
                             db_transactions := db_transactions d @
                               [\<lparr>tx_userId = userId, tx_symbol = inv_symbol investment,
                                 tx_transactionType = SELL,
                                 tx_quantity = JNum (Num (of_int sellQuantity)),
                                 tx_price = currentPrice,
                                 tx_totalAmount = Num saleValue\<rparr>]\<rparr>,
                           t1 @ [UserWrite, TransactionWrite,
                                 if sellQuantity = investmentQuantity then InvestmentDestroy
                                 else InvestmentWrite,
                                 Commit]))))))))"

text \<open>
  \<open>deleteInvestment\<close> removes a row of the requesting user, outside any transaction,
  and touches nothing else.
\<close>

definition deleteInvestment :: "db \<Rightarrow> nat \<Rightarrow> nat \<Rightarrow> reply \<times> db \<times> event list" where
  "deleteInvestment d userId id' =
     (case find (\<lambda>i. inv_id i = id' \<and> inv_userId i = userId) (db_investments d) of
        None \<Rightarrow> (Failed 404 PositionNotFound, d, [FindInvestment False])
      | Some investment \<Rightarrow>
          (Deleted, d\<lparr>db_investments := destroyRow investment (db_investments d)\<rparr>,
           [FindInvestment False, InvestmentDestroy]))"

text \<open>
  The two reads refresh \<open>currentPrice\<close> of the rows they return, from the oracle or,
  when it has no price, from the row's \<open>purchasePrice\<close>. \<open>getAllInvestments\<close> handles the
  user's rows concurrently; the trace lists the oracle calls, then the writes.
\<close>

definition refreshed :: "financeAPI \<Rightarrow> investment \<Rightarrow> investment" where
  "refreshed getStockPrice investment =
     investment\<lparr>inv_currentPrice :=
       (case getStockPrice (inv_symbol investment) of
          Some stockData \<Rightarrow> stock_price stockData
        | None \<Rightarrow> inv_purchasePrice investment)\<rparr>"

definition viewOf :: "financeAPI \<Rightarrow> investment \<Rightarrow> investmentView" where
  "viewOf getStockPrice investment =
     (let updated = refreshed getStockPrice investment;
          currentValue = inv_currentPrice updated * of_int (inv_quantity investment);
          gainLoss = currentValue - inv_totalInvested investment;
          gainLossPercent =
            (if inv_totalInvested investment > 0
             then (gainLoss / inv_totalInvested investment) * 100 else 0)
      in \<lparr>view_investment =
            updated\<lparr>inv_companyName :=
              js_or (case getStockPrice (inv_symbol investment) of
                       Some stockData \<Rightarrow> stock_shortName stockData
                     | None \<Rightarrow> None)
                    (inv_companyName investment)\<rparr>,
          view_currentValue = toFixed2 currentValue,
          view_gainLoss = toFixed2 gainLoss,
          view_gainLossPercent = toFixed2 gainLossPercent\<rparr>)"

definition getAllInvestments :: "financeAPI \<Rightarrow> db \<Rightarrow> nat \<Rightarrow> reply \<times> db \<times> event list" where
  "getAllInvestments getStockPrice d userId =
     (let mine = filter (\<lambda>i. inv_userId i = userId) (db_investments d)
      in (Listed (map (viewOf getStockPrice) (rev mine)),
          d\<lparr>db_investments :=
              map (\<lambda>i. if inv_userId i = userId then refreshed getStockPrice i else i)
                  (db_investments d)\<rparr>,
          FindInvestment False # map (\<lambda>i. OracleCall (inv_symbol i)) (rev mine)
            @ map (\<lambda>i. InvestmentWrite) mine))"

definition getInvestmentById ::
  "financeAPI \<Rightarrow> db \<Rightarrow> nat \<Rightarrow> nat \<Rightarrow> reply \<times> db \<times> event list" where
  "getInvestmentById getStockPrice d userId id' =
     (case find (\<lambda>i. inv_id i = id' \<and> inv_userId i = userId) (db_investments d) of
        None \<Rightarrow> (Failed 404 PositionNotFound, d, [FindInvestment False])
      | Some investment \<Rightarrow>
          (Fetched (viewOf getStockPrice investment),
           d\<lparr>db_investments :=
               updateRow (refreshed getStockPrice investment) (db_investments d)\<rparr>,
           [FindInvestment False, OracleCall (inv_symbol investment), InvestmentWrite]))"

text \<open>
  \<open>addCash\<close>. \<open>parseFloat\<close> of a string is the language's, the parameter \<open>s2f\<close>.
\<close>

fun parseFloat :: "(string \<Rightarrow> jsnum) \<Rightarrow> jsval \<Rightarrow> jsnum" where
  "parseFloat s2f JUndefined = NaN"
| "parseFloat s2f JNull = NaN"
| "parseFloat s2f (JNum n) = n"
| "parseFloat s2f (JStr s) = s2f s"

definition addCash ::
  "(string \<Rightarrow> jsnum) \<Rightarrow> (string \<Rightarrow> jsnum) \<Rightarrow> db \<Rightarrow> nat \<Rightarrow> jsval
     \<Rightarrow> reply \<times> db \<times> event list" where
  "addCash s2n s2f d userId amount =
     (if js_not amount \<or> js_le (ToNumber s2n amount) (Num 0)
      then (Failed 400 InvalidInput, d, [])
      else
       (case db_users d userId of
          None \<Rightarrow> (Failed 404 UserNotFound, d, [FindUser False])
        | Some cashBalance \<Rightarrow>
            (case saveCashBalance (js_add (Num cashBalance) (parseFloat s2f amount)) of
               Some newBalance \<Rightarrow>
                 (CashAdded (toFixed2 newBalance) (parseFloat s2f amount),
                  d\<lparr>db_users := (db_users d)(userId \<mapsto> newBalance)\<rparr>,
                  [FindUser False, UserWrite])
             | None \<Rightarrow> (Failed 500 ServerError, d, [FindUser False]))))"

section \<open>Requests and sequences of requests\<close>

text \<open>
  The operations of the controller that write to the store, as requests of one user.
\<close>

datatype request =
    CreateInvestment string jsval
  | BuyInvestment string jsval
  | SellInvestment nat jsval
  | DeleteInvestment nat
  | GetAllInvestments
  | GetInvestmentById nat
  | AddCash jsval

fun exec ::
  "(string \<Rightarrow> jsnum) \<Rightarrow> (string \<Rightarrow> jsnum) \<Rightarrow> financeAPI \<Rightarrow> db \<Rightarrow> nat \<Rightarrow> request
     \<Rightarrow> reply \<times> db \<times> event list" where
  "exec s2n s2f api d userId (CreateInvestment symbol quantity) =
     createInvestment s2n api d userId symbol quantity"
| "exec s2n s2f api d userId (BuyInvestment symbol quantity) =
     buyInvestment api d userId symbol quantity"
| "exec s2n s2f api d userId (SellInvestment id' quantity) =
     sellInvestment api d userId id' quantity"
| "exec s2n s2f api d userId (DeleteInvestment id') = deleteInvestment d userId id'"
| "exec s2n s2f api d userId GetAllInvestments = getAllInvestments api d userId"
| "exec s2n s2f api d userId (GetInvestmentById id') = getInvestmentById api d userId id'"
| "exec s2n s2f api d userId (AddCash amount) = addCash s2n s2f d userId amount"

text \<open>
  A sequence of requests of one user, each with the oracle as it answers at that time.
  \<open>run\<close> returns the final database and the replies in order.
\<close>

fun run ::
  "(string \<Rightarrow> jsnum) \<Rightarrow> (string \<Rightarrow> jsnum) \<Rightarrow> nat \<Rightarrow> db \<Rightarrow> (financeAPI \<times> request) list
     \<Rightarrow> db \<times> reply list" where
  "run s2n s2f userId d [] = (d, [])"
| "run s2n s2f userId d ((api, req) # rest) =
     (case exec s2n s2f api d userId req of
        (r, d1, tr) \<Rightarrow>
          (case run s2n s2f userId d1 rest of (d2, rs) \<Rightarrow> (d2, r # rs)))"

section \<open>Observations on a result\<close>

definition reply_of :: "reply \<times> db \<times> event list \<Rightarrow> reply" where
  "reply_of x = fst x"

definition db_of :: "reply \<times> db \<times> event list \<Rightarrow> db" where
  "db_of x = fst (snd x)"

definition trace_of :: "reply \<times> db \<times> event list \<Rightarrow> event list" where
  "trace_of x = snd (snd x)"

text \<open>A trade that went through, and a request that was refused.\<close>

fun succeeded :: "reply \<Rightarrow> bool" where
  "succeeded (Bought st i c td) = True"
| "succeeded (Sold sd c n) = True"
| "succeeded r = False"

fun failed :: "reply \<Rightarrow> bool" where
  "failed (Failed st e) = True"
| "failed r = False"

text \<open>
  The cash of a user, the cost basis of the user's open positions, and what a reply says
  the trade moved: minus the total cost of a buy, plus the sale value of a sell.
\<close>

definition cashOf :: "db \<Rightarrow> nat \<Rightarrow> rat" where
  "cashOf d u = (case db_users d u of Some c \<Rightarrow> c | None \<Rightarrow> 0)"

definition costBasis :: "db \<Rightarrow> nat \<Rightarrow> rat" where
  "costBasis d u =
     sum_list (map inv_totalInvested (filter (\<lambda>i. inv_userId i = u) (db_investments d)))"

fun amountOf :: "jsnum \<Rightarrow> rat" where
  "amountOf (Num a) = a"
| "amountOf x = 0"

fun cashFlow :: "reply \<Rightarrow> rat" where
  "cashFlow (Bought st i c td) = - amountOf (td_totalCost td)"
| "cashFlow (Sold sd c n) = sale_totalReceived sd"
| "cashFlow r = 0"

text \<open>
  Conservation as the spec words it: final cash plus the cost basis of the open
  positions against initial cash minus the buys' total costs plus the sells' sale
  values, one rounding to the cent (half a cent) allowed per trade. \<open>cashTracksTrades\<close>
  is the same with the cash alone on the left.
\<close>

definition conservationAsClaimed :: "nat \<Rightarrow> db \<Rightarrow> db \<times> reply list \<Rightarrow> bool" where
  "conservationAsClaimed u d res =
     (\<bar>cashOf (fst res) u + costBasis (fst res) u
        - (cashOf d u + sum_list (map cashFlow (snd res)))\<bar>
      \<le> of_nat (length (snd res)) / 200)"

definition cashTracksTrades :: "nat \<Rightarrow> db \<Rightarrow> db \<times> reply list \<Rightarrow> bool" where
  "cashTracksTrades u d res =
     (\<bar>cashOf (fst res) u - (cashOf d u + sum_list (map cashFlow (snd res)))\<bar>
      \<le> of_nat (length (snd res)) / 200)"

text \<open>
  The row locks an operation holds when it first calls the oracle: \<open>None\<close> if it never
  calls it. Locks are released by the commit or the rollback that ends the operation.
\<close>

fun isLock :: "event \<Rightarrow> bool" where
  "isLock (FindUser l) = l"
| "isLock (FindInvestment l) = l"
| "isLock e = False"

fun locksHeldAtOracle :: "event list \<Rightarrow> event list \<Rightarrow> event list option" where
  "locksHeldAtOracle held [] = None"
| "locksHeldAtOracle held (OracleCall s # es) = Some held"
| "locksHeldAtOracle held (e # es) =
     locksHeldAtOracle (if isLock e then held @ [e] else held) es"

definition oracleBeforeLocks :: "event list \<Rightarrow> bool" where
  "oracleBeforeLocks tr =
     (case locksHeldAtOracle [] tr of None \<Rightarrow> True | Some held \<Rightarrow> held = [])"

text \<open>The events that touch the store or the oracle: all but the transaction's own.\<close>

fun isIO :: "event \<Rightarrow> bool" where
  "isIO TxBegin = False"
| "isIO Commit = False"
| "isIO Rollback = False"
| "isIO e = True"

text \<open>
  A value of the \<open>INTEGER\<close> column \<open>quantity\<close>; the position a row stands for.
\<close>

definition intColumn :: "int \<Rightarrow> bool" where
  "intColumn n = (- (2 ^ 31) \<le> n \<and> n < 2 ^ 31)"

definition positionOf :: "investment \<Rightarrow> nat \<times> string \<times> int \<times> rat" where
  "positionOf i = (inv_userId i, inv_symbol i, inv_quantity i, inv_totalInvested i)"

definition noZeroRows :: "db \<Rightarrow> bool" where
  "noZeroRows d = list_all (\<lambda>i. inv_quantity i \<noteq> 0) (db_investments d)"




section \<open>The life of a position row\<close>

text \<open>
  What a request did to the rows, comparing the rows before with the rows after by their
  ids: a row was created (an id that was not there), removed (an id that is gone), or
  changed in what it holds, quantity and \<open>totalInvested\<close>.
\<close>

definition holding :: "investment \<Rightarrow> int \<times> rat" where
  "holding i = (inv_quantity i, inv_totalInvested i)"










section \<open>The data of the test suite\<close>

text \<open>
  The oracle as the controller's tests mock it (150 for every symbol), an oracle that has
  no price, a user with a cash balance, and the test suite's position of 20 shares.
\<close>

definition mockFinanceAPI :: financeAPI where
  "mockFinanceAPI s = Some \<lparr>stock_price = 150, stock_shortName = Some ''Apple Inc.''\<rparr>"

definition oracleDown :: financeAPI where
  "oracleDown s = None"

definition priceOf :: "rat \<Rightarrow> financeAPI" where
  "priceOf p s = Some \<lparr>stock_price = p, stock_shortName = None\<rparr>"

definition notANumber :: "string \<Rightarrow> jsnum" where
  "notANumber s = NaN"

definition testInvestment :: investment where
  "testInvestment =
     \<lparr>inv_id = 1, inv_userId = 1, inv_symbol = ''AAPL'', inv_companyName = Some ''Apple Inc.'',
      inv_quantity = 20, inv_purchasePrice = 140, inv_currentPrice = 155,
      inv_totalInvested = 2800\<rparr>"

definition testUser :: "rat \<Rightarrow> investment list \<Rightarrow> db" where
  "testUser cash rows =
     \<lparr>db_users = [1 \<mapsto> cash], db_investments = rows, db_transactions = [], db_nextId = 2\<rparr>"

text \<open>
  The spec's scenario: ten shares bought, then five of them sold, at 150 each. The
  position the buy creates gets the id 2.
\<close>

definition buyThenSell :: "(financeAPI \<times> request) list" where
  "buyThenSell =
     [(mockFinanceAPI, BuyInvestment ''AAPL'' (JNum (Num 10))),
      (mockFinanceAPI, SellInvestment 2 (JNum (Num 5)))]"

section \<open>Arithmetic of the model\<close>

lemma floor_rat_numeral [simp]:
  "\<lfloor>(numeral a :: rat) / numeral b\<rfloor> = numeral a div numeral b"
  using floor_divide_of_int_eq [of "numeral a" "numeral b", where ?'a = rat] by simp

lemma floor_rat_one_numeral [simp]:
  "\<lfloor>(1 :: rat) / numeral b\<rfloor> = 1 div numeral b"
  using floor_divide_of_int_eq [of 1 "numeral b", where ?'a = rat] by simp

lemma firstSignificant_0 [simp]: "firstSignificant 0 = 0"
  by (simp add: firstSignificant.simps)

lemma parseIntNum_of_int: "\<bar>n\<bar> < 10 ^ 21 \<Longrightarrow> parseIntNum (of_int n) = n"
proof -
  assume b: "\<bar>n\<bar> < 10 ^ 21"
  have lt: "\<not> (10 ^ 21 \<le> \<bar>(of_int n :: rat)\<bar>)"
  proof -
    have "\<bar>(of_int n :: rat)\<bar> = of_int \<bar>n\<bar>" by simp
    also have "\<dots> < of_int (10 ^ 21)" using b by (simp only: of_int_less_iff)
    finally show ?thesis by simp
  qed
  show ?thesis
  proof (cases "n = 0")
    case True
    then show ?thesis by (simp add: parseIntNum_def)
  next
    case False
    then have "1 \<le> \<bar>n\<bar>" by simp
    then have "(1::rat) \<le> of_int \<bar>n\<bar>" by (simp only: of_int_1_le_iff)
    then have ge: "\<not> (\<bar>(of_int n :: rat)\<bar> < 1 / 10 ^ 6)" by simp
    have fl: "\<lfloor>\<bar>(of_int n :: rat)\<bar>\<rfloor> = \<bar>n\<bar>"
    proof -
      have "\<bar>(of_int n :: rat)\<bar> = of_int \<bar>n\<bar>" by simp
      then show ?thesis by (simp only: floor_of_int)
    qed
    show ?thesis
      unfolding parseIntNum_def Let_def using lt ge fl by auto
  qed
qed

lemma setQuantity_int: "\<bar>n\<bar> < 10 ^ 21 \<Longrightarrow> setQuantity (JNum (Num (of_int n))) = n"
  by (simp add: setQuantity_def parseIntNum_of_int)

lemma round_err:
  fixes y :: rat
  shows "\<bar>of_int \<lfloor>y * 100 + 1 / 2\<rfloor> / 100 - y\<bar> \<le> 1 / 200"
proof -
  define z where "z = y * 100 + 1 / 2"
  have "of_int \<lfloor>z\<rfloor> \<le> z" "z < of_int \<lfloor>z\<rfloor> + 1" by linarith+
  then have "\<bar>of_int \<lfloor>z\<rfloor> - y * 100\<bar> \<le> 1 / 2" unfolding z_def by linarith
  then have "\<bar>(of_int \<lfloor>z\<rfloor> - y * 100) / 100\<bar> \<le> (1 / 2) / 100"
    by (simp only: abs_divide) simp
  then show ?thesis unfolding z_def by (simp add: diff_divide_distrib)
qed

lemma toFixed2_err: "\<bar>toFixed2 x - x\<bar> \<le> 1 / 200"
proof -
  consider "10 ^ 21 \<le> \<bar>x\<bar>" | "\<not> 10 ^ 21 \<le> \<bar>x\<bar>" "x < 0" | "\<not> 10 ^ 21 \<le> \<bar>x\<bar>" "\<not> x < 0"
    by blast
  then show ?thesis
  proof cases
    case 1
    then show ?thesis by (simp add: toFixed2_def)
  next
    case 2
    have "\<bar>of_int \<lfloor>(- x) * 100 + 1 / 2\<rfloor> / 100 - (- x)\<bar> \<le> 1 / 200" by (rule round_err)
    then show ?thesis using 2 by (simp add: toFixed2_def abs_if split: if_splits)
  next
    case 3
    have "\<bar>of_int \<lfloor>x * 100 + 1 / 2\<rfloor> / 100 - x\<bar> \<le> 1 / 200" by (rule round_err)
    then show ?thesis using 3 by (simp add: toFixed2_def abs_if split: if_splits)
  qed
qed

lemma saveCashBalance_Some [simp]: "saveCashBalance n = Some c \<longleftrightarrow> n = Num c"
  by (cases n) auto

lemma intColumn_abs: "intColumn n \<Longrightarrow> \<bar>n\<bar> < 10 ^ 21"
  by (simp add: intColumn_def abs_if)

lemma parseIntNum_column: "intColumn n \<Longrightarrow> parseIntNum (of_int n) = n"
  by (rule parseIntNum_of_int) (rule intColumn_abs)

section \<open>Refused sells\<close>



section \<open>The oracle call and the row locks\<close>

text \<open>
  Claim C7, as the code has it. A buy, through either entry point, holds no row lock
  when it calls the oracle. A sell that calls the oracle holds exactly one lock then,
  the lock on the position row, which it has to read to learn the symbol; the lock on
  the account row comes after the call.
\<close>

theorem locks_and_oracle:
  "oracleBeforeLocks (trace_of (buyInvestment api d userId symbol quantity))
   \<and> oracleBeforeLocks (trace_of (createInvestment s2n api d userId symbol quantity))
   \<and> locksHeldAtOracle [] (trace_of (sellInvestment api d userId id' quantity))
       \<in> {None, Some [FindInvestment True]}"
proof (intro conjI)
  show "oracleBeforeLocks (trace_of (buyInvestment api d userId symbol quantity))"
    by (simp add: buyInvestment_def trace_of_def oracleBeforeLocks_def Let_def
        split: option.splits prod.splits)
  show "oracleBeforeLocks (trace_of (createInvestment s2n api d userId symbol quantity))"
    by (simp add: createInvestment_def trace_of_def oracleBeforeLocks_def Let_def
        split: option.splits prod.splits jsnum.splits)
  show "locksHeldAtOracle [] (trace_of (sellInvestment api d userId id' quantity))
       \<in> {None, Some [FindInvestment True]}"
    by (simp add: sellInvestment_def trace_of_def Let_def split: option.splits)
qed

text \<open>
  Claim C7 as stated fails on a sell: selling 10 of the 20 shares, the operation calls
  the oracle with the position row locked.
\<close>

theorem sell_locks_first_counterexample:
  "\<not> oracleBeforeLocks
       (trace_of (sellInvestment mockFinanceAPI (testUser 1000 [testInvestment]) 1 1
          (JNum (Num 10))))"
  by (simp add: sellInvestment_def trace_of_def oracleBeforeLocks_def Let_def
      testUser_def testInvestment_def mockFinanceAPI_def parseIntNum_def toFixed2_def)

section \<open>A refused request leaves the database as it was\<close>

lemma refused_buy_keeps_db:
  "failed (reply_of (buyInvestment api d userId symbol quantity))
   \<Longrightarrow> db_of (buyInvestment api d userId symbol quantity) = d"
  by (auto simp: buyInvestment_def reply_of_def db_of_def Let_def
      split: option.splits if_splits prod.splits)

lemma refused_create_keeps_db:
  "failed (reply_of (createInvestment s2n api d userId symbol quantity))
   \<Longrightarrow> db_of (createInvestment s2n api d userId symbol quantity) = d"
  by (auto simp: createInvestment_def reply_of_def db_of_def Let_def
      split: option.splits if_splits prod.splits jsnum.splits)

lemma refused_sell_keeps_db:
  "failed (reply_of (sellInvestment api d userId id' quantity))
   \<Longrightarrow> db_of (sellInvestment api d userId id' quantity) = d"
  by (auto simp: sellInvestment_def reply_of_def db_of_def Let_def
      split: option.splits if_splits)

section \<open>The oracle has no price\<close>



section \<open>Buys beyond the cash balance\<close>

text \<open>
  What both entry points do with a buy they cannot afford: the request is refused with
  \<open>InsufficientFunds\<close> after the oracle call and the read of the account, and nothing is
  written. \<open>createInvestment\<close> reports the balance and the required amount,
  \<open>buyInvestment\<close> the balance only.
\<close>

lemma buy_overspend:
  assumes "parseInt quantity = Some n" "0 < n" "api symbol = Some stockData"
    and "0 < stock_price stockData" "db_users d userId = Some cash"
    and "cash < toFixed2 (stock_price stockData * of_int n)"
  shows "buyInvestment api d userId symbol quantity =
           (Failed 400 (InsufficientFunds (Some cash) None), d,
            [TxBegin, OracleCall symbol, FindUser True, Rollback])"
  unfolding buyInvestment_def using assms by (simp add: Let_def)

lemma create_overspend:
  assumes "symbol \<noteq> []" "0 < q" "api (toUpperCase symbol) = Some stockData"
    and "db_users d userId = Some cash" "cash < stock_price stockData * q"
  shows "createInvestment s2n api d userId symbol (JNum (Num q)) =
           (Failed 400 (InsufficientFunds (Some (toFixed2 cash))
                          (Some (Num (toFixed2 (stock_price stockData * q))))), d,
            [TxBegin, OracleCall (toUpperCase symbol), FindUser False, Rollback])"
  unfolding createInvestment_def using assms by (simp add: Let_def)

text \<open>
  Claim C2, at the spec's scenario (cash 1000, 100 shares at 150): \<open>buyInvestment\<close>
  refuses with \<open>InsufficientFunds\<close> and leaves the database unchanged, but its response
  carries the current balance and no required amount; \<open>createInvestment\<close> reports both,
  1000 and 15000.
\<close>

theorem buy_reports_balance_only:
  "buyInvestment mockFinanceAPI (testUser 1000 []) 1 ''AAPL'' (JNum (Num 100))
     = (Failed 400 (InsufficientFunds (Some 1000) None), testUser 1000 [],
        [TxBegin, OracleCall ''AAPL'', FindUser True, Rollback])
   \<and> createInvestment s2n mockFinanceAPI (testUser 1000 []) 1 ''AAPL'' (JNum (Num 100))
     = (Failed 400 (InsufficientFunds (Some 1000) (Some (Num 15000))), testUser 1000 [],
        [TxBegin, OracleCall ''AAPL'', FindUser False, Rollback])"
  by (simp add: buyInvestment_def createInvestment_def mockFinanceAPI_def testUser_def
      parseIntNum_def toFixed2_def Let_def toUpperCase_def toUpperChar_def)

section \<open>The symbol of a buy\<close>

text \<open>
  A request refused as invalid input has touched neither the oracle nor the store. In
  \<open>buyInvestment\<close> that is the request whose quantity \<open>parseInt\<close> makes no positive
  integer of; the symbol plays no part in it.
\<close>

lemma invalid_input_before_io:
  "reply_of (buyInvestment api d userId symbol quantity) = Failed 400 InvalidInput
   \<Longrightarrow> filter isIO (trace_of (buyInvestment api d userId symbol quantity)) = []"
  "reply_of (createInvestment s2n api d userId symbol quantity) = Failed 400 InvalidInput
   \<Longrightarrow> filter isIO (trace_of (createInvestment s2n api d userId symbol quantity)) = []"
  by (auto simp: buyInvestment_def createInvestment_def reply_of_def trace_of_def Let_def
      split: option.splits if_splits prod.splits)

lemma buy_invalid_input_iff:
  "reply_of (buyInvestment api d userId symbol quantity) = Failed 400 InvalidInput
   \<longleftrightarrow> (case parseInt quantity of None \<Rightarrow> True | Some n \<Rightarrow> n \<le> 0)"
  by (auto simp: buyInvestment_def reply_of_def Let_def
      split: option.splits if_splits prod.splits)

text \<open>
  Claim C6, on both entry points. In \<open>buyInvestment\<close> the symbol \<open>aapl\<close> reaches the
  oracle and the new position as it was sent, in lower case, and an empty symbol is not
  refused before the oracle is called: with an oracle that has no price the refusal is
  \<open>PricingUnavailable\<close>, after the call. \<open>createInvestment\<close> on the same requests asks
  the oracle for \<open>AAPL\<close> and refuses the empty symbol at once; but it lets the quantity
  \<open>abc\<close> through its validation (\<open>"abc" <= 0\<close> is false), calls the oracle, reads and
  writes, and ends in the \<open>catch\<close> block with status 500 when the balance to store is
  \<open>NaN\<close>.
\<close>

theorem buy_keeps_symbol_as_sent:
  "trace_of (buyInvestment mockFinanceAPI (testUser 5000 []) 1 ''aapl'' (JNum (Num 1)))
     = [TxBegin, OracleCall ''aapl'', FindUser True, FindInvestment True, InvestmentWrite,
        UserWrite, TransactionWrite, Commit]
   \<and> map inv_symbol
         (db_investments (db_of (buyInvestment mockFinanceAPI (testUser 5000 []) 1 ''aapl''
            (JNum (Num 1))))) = [''aapl'']
   \<and> buyInvestment oracleDown (testUser 5000 []) 1 [] (JNum (Num 1))
     = (Failed 400 PricingUnavailable, testUser 5000 [], [TxBegin, OracleCall [], Rollback])
   \<and> trace_of (createInvestment s2n mockFinanceAPI (testUser 5000 []) 1 ''aapl''
        (JNum (Num 1)))
     = [TxBegin, OracleCall ''AAPL'', FindUser False, FindInvestment False, InvestmentWrite,
        UserWrite, TransactionWrite, Commit]
   \<and> createInvestment s2n oracleDown (testUser 5000 []) 1 [] (JNum (Num 1))
     = (Failed 400 InvalidInput, testUser 5000 [], [TxBegin, Rollback])
   \<and> createInvestment notANumber mockFinanceAPI (testUser 5000 []) 1 ''AAPL'' (JStr ''abc'')
     = (Failed 500 ServerError, testUser 5000 [],
        [TxBegin, OracleCall ''AAPL'', FindUser False, FindInvestment False, InvestmentWrite,
         Rollback])"
  by (simp add: buyInvestment_def createInvestment_def mockFinanceAPI_def oracleDown_def
      testUser_def parseIntNum_def toFixed2_def Let_def toUpperCase_def toUpperChar_def
      trace_of_def db_of_def saveInvestment_def setQuantity_def js_or_def js_sub_def
      notANumber_def parseIntStr_def)

text \<open>
  \<open>createInvestment\<close> takes the quantity as it came. A string of digits passes its
  validation and is priced as the number it spells, but \<open>investment.quantity + quantity\<close>
  then appends it to the held quantity: 5 more shares, sent as the string \<open>5\<close>, turn the
  test suite's 20 shares into 205. \<open>s2n\<close> is any StringToNumber that reads the two strings
  of digits as their numbers.
\<close>

lemma create_appends_quantity_string:
  assumes "s2n ''5'' = Num 5" "s2n ''205'' = Num 205"
  shows "map inv_quantity (db_investments (db_of
           (createInvestment s2n mockFinanceAPI (testUser 5000 [testInvestment]) 1 ''AAPL''
              (JStr ''5'')))) = [205]"
  using assms
  by (simp add: createInvestment_def mockFinanceAPI_def testUser_def testInvestment_def
      Let_def toUpperCase_def toUpperChar_def db_of_def saveInvestment_def setQuantity_def
      js_or_def js_sub_def parseIntStr_def intToString_def digitsOf.simps updateRow_def
      stripSign_def stripHexPrefix_def isWhiteSpace_def digit10_def fromDigits_def)

section \<open>Positions of no shares\<close>

text \<open>
  A sell of the whole position deletes the row and reports 0 remaining shares, and no
  sell leaves a row of quantity 0 behind, the quantities being values of the \<open>INTEGER\<close>
  column.
\<close>

lemma sell_all_deletes:
  assumes "find (\<lambda>i. inv_id i = id' \<and> inv_userId i = userId) (db_investments d) = Some investment"
    and "intColumn (inv_quantity investment)" and "0 < inv_quantity investment"
    and "parseInt quantity = Some (inv_quantity investment)"
    and "db_users d userId = Some cash"
  shows "\<exists>details newCashBalance.
           reply_of (sellInvestment api d userId id' quantity) = Sold details newCashBalance 0"
    and "db_investments (db_of (sellInvestment api d userId id' quantity))
           = destroyRow investment (db_investments d)"
    and "find (\<lambda>i. inv_id i = id') (db_investments (db_of (sellInvestment api d userId id' quantity)))
           = None"
proof -
  have held: "parseIntNum (of_int (inv_quantity investment)) = inv_quantity investment"
    using assms(2) by (rule parseIntNum_column)
  have idq: "inv_id investment = id'"
    using assms(1) by (auto simp: find_Some_iff)
  show "\<exists>details newCashBalance.
           reply_of (sellInvestment api d userId id' quantity) = Sold details newCashBalance 0"
    unfolding sellInvestment_def reply_of_def using assms held by (simp add: Let_def)
  show rows: "db_investments (db_of (sellInvestment api d userId id' quantity))
           = destroyRow investment (db_investments d)"
    unfolding sellInvestment_def db_of_def using assms held by (simp add: Let_def)
  show "find (\<lambda>i. inv_id i = id') (db_investments (db_of (sellInvestment api d userId id' quantity)))
           = None"
    unfolding rows destroyRow_def idq by (simp add: find_None_iff)
qed

lemma sell_keeps_no_zero_rows:
  assumes "noZeroRows d"
    and "list_all (\<lambda>i. intColumn (inv_quantity i)) (db_investments d)"
  shows "noZeroRows (db_of (sellInvestment api d userId id' quantity))"
proof (cases "find (\<lambda>i. inv_id i = id' \<and> inv_userId i = userId) (db_investments d)")
  case None
  then show ?thesis using assms(1)
    by (simp add: sellInvestment_def db_of_def split: option.splits)
next
  case (Some investment)
  then have mem: "investment \<in> set (db_investments d)"
    by (auto simp: find_Some_iff)
  then have "intColumn (inv_quantity investment)"
    using assms(2) by (simp add: list_all_iff)
  then have held: "parseIntNum (of_int (inv_quantity investment)) = inv_quantity investment"
    by (rule parseIntNum_column)
  have small: "\<bar>inv_quantity investment\<bar> < 10 ^ 21"
    using \<open>intColumn (inv_quantity investment)\<close> by (rule intColumn_abs)
  have rem: "0 < n \<Longrightarrow> n < inv_quantity investment
      \<Longrightarrow> setQuantity (JNum (Num (of_int (inv_quantity investment) - of_int n)))
          = inv_quantity investment - n" for n
  proof -
    assume "0 < n" "n < inv_quantity investment"
    then have "\<bar>inv_quantity investment - n\<bar> < 10 ^ 21" using small by linarith
    then have "setQuantity (JNum (Num (of_int (inv_quantity investment - n))))
        = inv_quantity investment - n"
      by (rule setQuantity_int)
    then show ?thesis by (simp only: of_int_diff)
  qed
  show ?thesis using assms(1) Some held
    by (auto simp: sellInvestment_def db_of_def noZeroRows_def Let_def list_all_iff
        updateRow_def destroyRow_def rem split: option.splits)
qed

text \<open>
  Claim C4, on \<open>createInvestment\<close>. A first buy of half a share passes the validation
  (\<open>0.5\<close> is truthy and positive), costs 75, and commits a row whose quantity the
  model's setter has cut to 0.
\<close>

theorem create_keeps_row_of_no_shares:
  "succeeded (reply_of (createInvestment s2n mockFinanceAPI (testUser 5000 []) 1 ''AAPL''
      (JNum (Num (1 / 2)))))
   \<and> map inv_quantity (db_investments (db_of (createInvestment s2n mockFinanceAPI
        (testUser 5000 []) 1 ''AAPL'' (JNum (Num (1 / 2)))))) = [0]
   \<and> db_users (db_of (createInvestment s2n mockFinanceAPI (testUser 5000 []) 1 ''AAPL''
        (JNum (Num (1 / 2))))) 1 = Some 4925"
  by (simp add: createInvestment_def mockFinanceAPI_def testUser_def parseIntNum_def
      toFixed2_def Let_def toUpperCase_def toUpperChar_def reply_of_def db_of_def
      saveInvestment_def setQuantity_def js_or_def js_sub_def)

section \<open>Cash over a sequence of trades\<close>

lemma js_sub_Num: "js_sub (Num a) t = Num c \<Longrightarrow> t = Num (a - c)"
  by (cases t) (auto simp: js_sub_def split: if_splits)

lemma create_cash:
  assumes "succeeded (reply_of (createInvestment s2n api d userId symbol quantity))"
  shows "cashOf (db_of (createInvestment s2n api d userId symbol quantity)) userId
           = cashOf d userId
             + cashFlow (reply_of (createInvestment s2n api d userId symbol quantity))"
  using assms
  by (auto simp: createInvestment_def reply_of_def db_of_def cashOf_def Let_def
      dest!: js_sub_Num split: option.splits if_splits prod.splits jsnum.splits)

lemma buy_cash_exact:
  assumes "succeeded (reply_of (buyInvestment api d userId symbol quantity))"
  shows "cashOf (db_of (buyInvestment api d userId symbol quantity)) userId
           = toFixed2 (cashOf d userId
               + cashFlow (reply_of (buyInvestment api d userId symbol quantity)))"
  using assms
  by (auto simp: buyInvestment_def reply_of_def db_of_def cashOf_def Let_def
      split: option.splits if_splits prod.splits)

lemma buy_cash:
  assumes "succeeded (reply_of (buyInvestment api d userId symbol quantity))"
  shows "\<bar>cashOf (db_of (buyInvestment api d userId symbol quantity)) userId
           - (cashOf d userId
              + cashFlow (reply_of (buyInvestment api d userId symbol quantity)))\<bar> \<le> 1 / 200"
  unfolding buy_cash_exact [OF assms] by (rule toFixed2_err)

lemma sell_cash_exact:
  assumes "succeeded (reply_of (sellInvestment api d userId id' quantity))"
  shows "cashOf (db_of (sellInvestment api d userId id' quantity)) userId
           = toFixed2 (cashOf d userId
               + cashFlow (reply_of (sellInvestment api d userId id' quantity)))"
  using assms
  by (auto simp: sellInvestment_def reply_of_def db_of_def cashOf_def Let_def
      split: option.splits if_splits)

lemma sell_cash:
  assumes "succeeded (reply_of (sellInvestment api d userId id' quantity))"
  shows "\<bar>cashOf (db_of (sellInvestment api d userId id' quantity)) userId
           - (cashOf d userId
              + cashFlow (reply_of (sellInvestment api d userId id' quantity)))\<bar> \<le> 1 / 200"
  unfolding sell_cash_exact [OF assms] by (rule toFixed2_err)

lemma exec_cash:
  assumes "succeeded (reply_of (exec s2n s2f api d userId req))"
  shows "\<bar>cashOf (db_of (exec s2n s2f api d userId req)) userId
           - (cashOf d userId + cashFlow (reply_of (exec s2n s2f api d userId req)))\<bar>
         \<le> 1 / 200"
proof (cases req)
  case (CreateInvestment symbol quantity)
  then show ?thesis using assms create_cash [of s2n api d userId symbol quantity] by simp
next
  case (BuyInvestment symbol quantity)
  then show ?thesis using assms buy_cash [of api d userId symbol quantity] by simp
next
  case (SellInvestment id' quantity)
  then show ?thesis using assms sell_cash [of api d userId id' quantity] by simp
next
  case (DeleteInvestment id')
  then show ?thesis using assms
    by (simp add: deleteInvestment_def reply_of_def split: option.splits)
next
  case GetAllInvestments
  then show ?thesis using assms by (simp add: getAllInvestments_def reply_of_def Let_def)
next
  case (GetInvestmentById id')
  then show ?thesis using assms
    by (simp add: getInvestmentById_def reply_of_def split: option.splits)
next
  case (AddCash amount)
  then show ?thesis using assms
    by (simp add: addCash_def reply_of_def split: option.splits jsnum.splits if_splits)
qed

text \<open>
  Claim C1, as the code has it. Over any sequence of requests of one user that are all
  trades that went through, the final cash balance is the initial one, minus the total
  cost of each buy, plus the sale value of each sell, within half a cent per trade.
\<close>

theorem cash_tracks_trades:
  assumes "list_all succeeded (snd (run s2n s2f userId d ops))"
  shows "cashTracksTrades userId d (run s2n s2f userId d ops)"
  using assms
proof (induction ops arbitrary: d)
  case Nil
  then show ?case by (simp add: cashTracksTrades_def)
next
  case (Cons op ops)
  obtain api req where op: "op = (api, req)" by (cases op)
  define x where "x = exec s2n s2f api d userId req"
  define d1 where "d1 = db_of x"
  define y where "y = run s2n s2f userId d1 ops"
  have run: "run s2n s2f userId d (op # ops) = (fst y, reply_of x # snd y)"
    by (simp add: op x_def d1_def y_def db_of_def reply_of_def split: prod.splits)
  from Cons.prems have ok: "succeeded (reply_of x)" "list_all succeeded (snd y)"
    by (simp_all add: run)
  have step: "\<bar>cashOf d1 userId - (cashOf d userId + cashFlow (reply_of x))\<bar> \<le> 1 / 200"
    using exec_cash [of s2n s2f api d userId req] ok(1) by (simp add: x_def d1_def)
  have rest: "\<bar>cashOf (fst y) userId - (cashOf d1 userId + sum_list (map cashFlow (snd y)))\<bar>
              \<le> of_nat (length (snd y)) / 200"
    using Cons.IH [of d1] ok(2) by (simp add: y_def cashTracksTrades_def)
  have "\<bar>cashOf (fst y) userId
          - (cashOf d userId + (cashFlow (reply_of x) + sum_list (map cashFlow (snd y))))\<bar>
        \<le> 1 / 200 + of_nat (length (snd y)) / 200"
    using step rest by linarith
  moreover have "(of_nat (length (reply_of x # snd y)) :: rat) / 200
        = 1 / 200 + of_nat (length (snd y)) / 200"
    by (simp add: add_divide_distrib)
  ultimately show ?case unfolding run cashTracksTrades_def fst_conv snd_conv
    by (simp only: list.map sum_list.Cons)
qed

text \<open>The spec's scenario: 5000, ten shares bought and five sold at 150, leaves 4250.\<close>

theorem cash_tracks_trades_witness:
  "list_all succeeded (snd (run notANumber notANumber 1 (testUser 5000 []) buyThenSell))
   \<and> cashOf (fst (run notANumber notANumber 1 (testUser 5000 []) buyThenSell)) 1 = 4250
   \<and> cashTracksTrades 1 (testUser 5000 [])
        (run notANumber notANumber 1 (testUser 5000 []) buyThenSell)"
proof -
  have ok: "list_all succeeded
      (snd (run notANumber notANumber 1 (testUser 5000 []) buyThenSell))"
    by (simp add: buyThenSell_def buyInvestment_def sellInvestment_def mockFinanceAPI_def
        testUser_def parseIntNum_def toFixed2_def Let_def saveInvestment_def
        setQuantity_def js_or_def)
  have c: "cashOf (fst (run notANumber notANumber 1 (testUser 5000 []) buyThenSell)) 1 = 4250"
    by (simp add: buyThenSell_def buyInvestment_def sellInvestment_def mockFinanceAPI_def
        testUser_def parseIntNum_def toFixed2_def Let_def saveInvestment_def
        setQuantity_def js_or_def cashOf_def)
  from cash_tracks_trades [OF ok] ok c show ?thesis by simp
qed

text \<open>
  Claim C1 as stated adds the cost basis of the open positions to the final cash. After
  one buy of ten shares at 150 from a balance of 5000, cash is 3500 and the cost basis
  1500: together 5000, against 5000 - 1500 = 3500 on the other side.
\<close>

theorem cost_basis_counterexample:
  "list_all succeeded
     (snd (run notANumber notANumber 1 (testUser 5000 [])
        [(mockFinanceAPI, BuyInvestment ''AAPL'' (JNum (Num 10)))]))
   \<and> \<not> conservationAsClaimed 1 (testUser 5000 [])
        (run notANumber notANumber 1 (testUser 5000 [])
           [(mockFinanceAPI, BuyInvestment ''AAPL'' (JNum (Num 10)))])"
  by (simp add: buyInvestment_def mockFinanceAPI_def testUser_def parseIntNum_def
      toFixed2_def Let_def saveInvestment_def setQuantity_def js_or_def
      conservationAsClaimed_def cashOf_def costBasis_def)

section \<open>Two buys of one symbol\<close>







section \<open>The two buy entry points compared\<close>

text \<open>
  Claim C10. The two entry points differ on the same request, from a balance of 5000 and
  no position. One share at the price 0.125: \<open>createInvestment\<close> charges 0.125 and stores
  it as \<open>totalInvested\<close>, \<open>buyInvestment\<close> rounds the cost to 0.13. Two and a half
  shares at 150: \<open>createInvestment\<close> charges 375 for a position of 2 shares (the setter
  of \<open>quantity\<close> cuts 2.5 to 2) and logs a transaction of 2.5 shares, \<open>buyInvestment\<close>
  cuts the quantity first and charges 300 for 2 shares. Half a share at 150:
  \<open>buyInvestment\<close> refuses the request as invalid input, \<open>createInvestment\<close> goes
  through. The numbers of these requests are binary fractions, on which the arithmetic of
  JavaScript is exact.
\<close>

theorem entry_points_differ:
  "db_users (db_of (createInvestment s2n (priceOf (1 / 8)) (testUser 5000 []) 1 ''AAPL''
        (JNum (Num 1)))) 1 = Some (39999 / 8)
   \<and> db_users (db_of (buyInvestment (priceOf (1 / 8)) (testUser 5000 []) 1 ''AAPL''
        (JNum (Num 1)))) 1 = Some (499987 / 100)
   \<and> map positionOf (db_investments (db_of (createInvestment s2n (priceOf (1 / 8))
        (testUser 5000 []) 1 ''AAPL'' (JNum (Num 1))))) = [(1, ''AAPL'', 1, 1 / 8)]
   \<and> map positionOf (db_investments (db_of (buyInvestment (priceOf (1 / 8))
        (testUser 5000 []) 1 ''AAPL'' (JNum (Num 1))))) = [(1, ''AAPL'', 1, 13 / 100)]
   \<and> db_users (db_of (createInvestment s2n mockFinanceAPI (testUser 5000 []) 1 ''AAPL''
        (JNum (Num (5 / 2))))) 1 = Some 4625
   \<and> db_users (db_of (buyInvestment mockFinanceAPI (testUser 5000 []) 1 ''AAPL''
        (JNum (Num (5 / 2))))) 1 = Some 4700
   \<and> map positionOf (db_investments (db_of (createInvestment s2n mockFinanceAPI
        (testUser 5000 []) 1 ''AAPL'' (JNum (Num (5 / 2)))))) = [(1, ''AAPL'', 2, 375)]
   \<and> map positionOf (db_investments (db_of (buyInvestment mockFinanceAPI
        (testUser 5000 []) 1 ''AAPL'' (JNum (Num (5 / 2)))))) = [(1, ''AAPL'', 2, 300)]
   \<and> map (\<lambda>t. (tx_quantity t, tx_totalAmount t))
        (db_transactions (db_of (createInvestment s2n mockFinanceAPI (testUser 5000 []) 1
           ''AAPL'' (JNum (Num (5 / 2)))))) = [(JNum (Num (5 / 2)), Num 375)]
   \<and> map (\<lambda>t. (tx_quantity t, tx_totalAmount t))
        (db_transactions (db_of (buyInvestment mockFinanceAPI (testUser 5000 []) 1
           ''AAPL'' (JNum (Num (5 / 2)))))) = [(JNum (Num 2), Num 300)]
   \<and> reply_of (buyInvestment mockFinanceAPI (testUser 5000 []) 1 ''AAPL''
        (JNum (Num (1 / 2)))) = Failed 400 InvalidInput
   \<and> succeeded (reply_of (createInvestment s2n mockFinanceAPI (testUser 5000 []) 1 ''AAPL''
        (JNum (Num (1 / 2)))))"
  by (simp add: createInvestment_def buyInvestment_def priceOf_def mockFinanceAPI_def
      testUser_def parseIntNum_def toFixed2_def Let_def saveInvestment_def setQuantity_def
      js_or_def js_sub_def db_of_def reply_of_def positionOf_def toUpperCase_def
      toUpperChar_def)

section \<open>Which requests create, change and remove a row\<close>















lemma refreshed_same [simp]:
  "inv_id (refreshed api i) = inv_id i" "holding (refreshed api i) = holding i"
  by (simp_all add: refreshed_def holding_def)




end
